theory Spec2Isabelle
  imports Complex_Main
begin

section \<open>Python values used by train.py\<close>

text \<open>
  The exceptions that the modelled code can raise. A computation that may raise has
  the type \<open>error + 'a\<close>, with \<open>Inl\<close> for the exception.
\<close>

datatype error =
    ValueError | IndexError | KeyError | TypeError | OverflowError
  | FileNotFoundError | KeyboardInterrupt

definition bind_err :: "error + 'a \<Rightarrow> ('a \<Rightarrow> error + 'b) \<Rightarrow> error + 'b" where
  "bind_err m f = (case m of Inl e \<Rightarrow> Inl e | Inr x \<Rightarrow> f x)"

text \<open>A list comprehension whose element expression may raise: the first exception wins.\<close>

fun traverse :: "('a \<Rightarrow> error + 'b) \<Rightarrow> 'a list \<Rightarrow> error + 'b list" where
  "traverse f [] = Inr []"
| "traverse f (x # xs) =
     (case f x of
        Inl e \<Rightarrow> Inl e
      | Inr y \<Rightarrow> (case traverse f xs of Inl e \<Rightarrow> Inl e | Inr ys \<Rightarrow> Inr (y # ys)))"

text \<open>\<^verbatim>\<open>list.index(x)\<close>: the position of the first occurrence, ValueError when absent.\<close>

fun list_index :: "'a \<Rightarrow> 'a list \<Rightarrow> nat option" where
  "list_index c [] = None"
| "list_index c (x # xs) = (if x = c then Some 0 else map_option Suc (list_index c xs))"

subsection \<open>float32 cells\<close>

text \<open>
  \<^verbatim>\<open>np.array(ids, dtype=np.float32)\<close> stores every Python int in a float32 cell: the int
  is converted to a binary64 float (OverflowError when it is too large) and that float
  is narrowed to binary32, each time rounding to nearest, ties to even. All values that
  occur are integral, so a finite cell is modelled by the integer it holds. Integers of
  magnitude below \<open>2 ^ 24\<close> are stored exactly.
\<close>

fun bit_length :: "nat \<Rightarrow> nat" where
  "bit_length n = (if n = 0 then 0 else Suc (bit_length (n div 2)))"

declare bit_length.simps [simp del]

definition round_half_even :: "nat \<Rightarrow> int \<Rightarrow> int" where
  "round_half_even p n =
     (let a = nat \<bar>n\<bar> in
      if a < 2 ^ p then n
      else
        let e = bit_length a - p;
            q = a div 2 ^ e;
            r = a mod 2 ^ e;
            h = 2 ^ (e - 1);
            q' = (if h < r \<or> (r = h \<and> odd q) then q + 1 else q)
        in sgn n * int (q' * 2 ^ e))"

datatype float32 = Fin int | PInf | NInf

definition scalar_float32 :: "int \<Rightarrow> float32" where
  "scalar_float32 n =
     (let r = round_half_even 24 (round_half_even 53 n) in
      if 2 ^ 128 \<le> r then PInf else if r \<le> - (2 ^ 128) then NInf else Fin r)"

definition np_float32 :: "int \<Rightarrow> error + float32" where
  "np_float32 n =
     (if 2 ^ 1024 \<le> \<bar>round_half_even 53 n\<bar> then Inl OverflowError
      else Inr (scalar_float32 n))"

definition np_array_float32 :: "int list \<Rightarrow> error + float32 list" where
  "np_array_float32 xs = traverse np_float32 xs"

text \<open>\<^verbatim>\<open>int(code)\<close> on a float32 cell: infinities raise OverflowError.\<close>

fun int_of_float32 :: "float32 \<Rightarrow> error + int" where
  "int_of_float32 (Fin n) = Inr n"
| "int_of_float32 PInf = Inl OverflowError"
| "int_of_float32 NInf = Inl OverflowError"

section \<open>The sequence encoder\<close>

text \<open>
  \<^verbatim>\<open>
  def onehot(index, size):
      vec = np.zeros(size, dtype=np.float32)
      vec[index] = 1.0
      return vec
  \<close>
  NumPy indexing accepts \<open>- size \<le> index < size\<close>, a negative index counting from the
  end, and raises IndexError otherwise.
\<close>

definition onehot :: "int \<Rightarrow> nat \<Rightarrow> error + real list" where
  "onehot index sz =
     (let vec = replicate sz 0 in
      if 0 \<le> index \<and> index < int sz then Inr (vec[nat index := 1])
      else if - int sz \<le> index \<and> index < 0 then Inr (vec[nat (index + int sz) := 1])
      else Inl IndexError)"

text \<open>
  The padding loop of \<open>prepare_sample\<close>:
  \<^verbatim>\<open>
  while len(output_vec) < len(input_vec):
      output_vec.append(target_code)
  \<close>
\<close>

function pad_loop :: "nat \<Rightarrow> int \<Rightarrow> int list \<Rightarrow> int list" where
  "pad_loop n target_code output_vec =
     (if length output_vec < n then pad_loop n target_code (output_vec @ [target_code])
      else output_vec)"
  by pat_completeness auto
termination
  by (relation "measure (\<lambda>(n, c, out). n - length out)") auto

declare pad_loop.simps [simp del]

text \<open>
  \<^verbatim>\<open>np.reshape(a, (1, -1, width))\<close> of an array holding rows of \<open>width\<close> entries. The
  unknown dimension cannot be inferred when \<open>width = 0\<close>, which raises ValueError.
  The result has a leading batch dimension of size one.
\<close>

definition reshape_batch :: "nat \<Rightarrow> real list list \<Rightarrow> error + real list list list" where
  "reshape_batch width rows = (if width = 0 then Inl ValueError else Inr [rows])"

type_synonym encoded = "real list list list \<times> real list list list \<times> nat \<times> real list list list"

text \<open>
  \<^verbatim>\<open>
  def prepare_sample(sample, target_code, word_space_size):
      input_vec = np.array(sample[:sample.index(target_code)], dtype=np.float32)
      output_vec = sample[sample.index(target_code) + 1:]
      while len(output_vec) < len(input_vec):
          output_vec.append(target_code)
      output_vec = np.array(output_vec, dtype=np.float32)
      seq_len = input_vec.shape[0]
      weights_vec = np.zeros(seq_len, dtype=np.float32)

      target_mask = (output_vec != target_code)
      weights_vec[target_mask] = 1.0
      input_vec = np.array([onehot(int(code), word_space_size) for code in input_vec])
      output_vec = np.array([onehot(int(code), word_space_size) for code in output_vec])

      return (
          np.reshape(input_vec, (1, -1, word_space_size)),
          np.reshape(output_vec, (1, -1, word_space_size)),
          seq_len,
          np.reshape(weights_vec, (1, -1, 1))
      )
  \<close>
  The assignment through the boolean mask raises IndexError when the mask and
  \<open>weights_vec\<close> differ in length.
\<close>

definition onehot_rows :: "nat \<Rightarrow> float32 list \<Rightarrow> error + real list list" where
  "onehot_rows word_space_size vec =
     traverse (\<lambda>code. bind_err (int_of_float32 code) (\<lambda>i. onehot i word_space_size)) vec"

definition prepare_sample :: "int list \<Rightarrow> int \<Rightarrow> nat \<Rightarrow> error + encoded" where
  "prepare_sample sample target_code word_space_size =
     (case list_index target_code sample of
        None \<Rightarrow> Inl ValueError
      | Some k \<Rightarrow>
          bind_err (np_array_float32 (take k sample)) (\<lambda>input_vec.
          bind_err (np_array_float32
                      (pad_loop (length input_vec) target_code (drop (k + 1) sample)))
            (\<lambda>output_vec.
          let seq_len = length input_vec;
              target_mask = map (\<lambda>v. v \<noteq> scalar_float32 target_code) output_vec
          in
          if length target_mask \<noteq> seq_len then Inl IndexError
          else
            let weights_vec = map (\<lambda>b. if b then 1 else 0 :: real) target_mask in
            bind_err (onehot_rows word_space_size input_vec) (\<lambda>input_rows.
            bind_err (onehot_rows word_space_size output_vec) (\<lambda>output_rows.
            bind_err (reshape_batch word_space_size input_rows) (\<lambda>input_data.
            bind_err (reshape_batch word_space_size output_rows) (\<lambda>target_output.
            Inr (input_data, target_output, seq_len,
                 [map (\<lambda>w. [w]) weights_vec]))))))))"

text \<open>The loss mask of an encoded sample as a flat list, one weight per time step.\<close>

definition mask_of :: "encoded \<Rightarrow> real list" where
  "mask_of enc = (case enc of (input_data, target_output, seq_len, weights) \<Rightarrow>
                    concat (concat weights))"

section \<open>Strings\<close>

text \<open>
  File names, option values and checkpoint names are ASCII strings. The functions below
  are the string operations of Python that \<open>main\<close> uses, on such strings.
\<close>

definition digit_of :: "char \<Rightarrow> nat option" where
  "digit_of c = list_index c ''0123456789''"

definition is_digit :: "char \<Rightarrow> bool" where
  "is_digit c \<longleftrightarrow> digit_of c \<noteq> None"

definition digit_val :: "char \<Rightarrow> nat" where
  "digit_val c = (case digit_of c of None \<Rightarrow> 0 | Some d \<Rightarrow> d)"

text \<open>\<^verbatim>\<open>s.isnumeric()\<close>: at least one character, and all of them digits.\<close>

definition isnumeric :: "string \<Rightarrow> bool" where
  "isnumeric s \<longleftrightarrow> s \<noteq> [] \<and> list_all is_digit s"

text \<open>\<^verbatim>\<open>s.find(c)\<close> for a one-character needle: the first position, or \<open>-1\<close>.\<close>

definition str_find :: "char \<Rightarrow> string \<Rightarrow> int" where
  "str_find c s = (case list_index c s of None \<Rightarrow> - 1 | Some k \<Rightarrow> int k)"

text \<open>\<^verbatim>\<open>sub in s\<close>: \<open>sub\<close> occurs in \<open>s\<close> as a contiguous substring.\<close>

fun starts_with :: "string \<Rightarrow> string \<Rightarrow> bool" where
  "starts_with [] s = True"
| "starts_with (p # ps) [] = False"
| "starts_with (p # ps) (c # cs) = (p = c \<and> starts_with ps cs)"

fun str_contains :: "string \<Rightarrow> string \<Rightarrow> bool" where
  "str_contains sub [] = (sub = [])"
| "str_contains sub (c # cs) = (starts_with sub (c # cs) \<or> str_contains sub cs)"

text \<open>
  \<^verbatim>\<open>int(s)\<close> on a string: surrounding whitespace is stripped, one sign is allowed, and
  the digits may be grouped by single underscores; anything else raises ValueError
  (\<open>None\<close> here).
\<close>

definition is_space :: "char \<Rightarrow> bool" where
  "is_space c \<longleftrightarrow>
     c \<in> set [CHR '' '', CHR 0x09, CHR 0x0A, CHR 0x0B, CHR 0x0C, CHR 0x0D,
               CHR 0x1C, CHR 0x1D, CHR 0x1E, CHR 0x1F]"

definition strip :: "string \<Rightarrow> string" where
  "strip s = rev (dropWhile is_space (rev (dropWhile is_space s)))"

fun digits_acc :: "nat \<Rightarrow> string \<Rightarrow> nat option" where
  "digits_acc a [] = Some a"
| "digits_acc a (c # cs) =
     (if is_digit c then digits_acc (10 * a + digit_val c) cs
      else if c = CHR ''_'' then
        (case cs of
           [] \<Rightarrow> None
         | d # ds \<Rightarrow> if is_digit d then digits_acc (10 * a + digit_val d) ds else None)
      else None)"

definition parse_digits :: "string \<Rightarrow> nat option" where
  "parse_digits s =
     (case s of [] \<Rightarrow> None
      | c # cs \<Rightarrow> if is_digit c then digits_acc (digit_val c) cs else None)"

definition py_int :: "string \<Rightarrow> error + int" where
  "py_int s =
     (let body = (case strip s of
                    [] \<Rightarrow> None
                  | c # cs \<Rightarrow>
                      if c = CHR ''-'' then map_option (\<lambda>n. - int n) (parse_digits cs)
                      else if c = CHR ''+'' then map_option int (parse_digits cs)
                      else map_option int (parse_digits (c # cs)))
      in case body of None \<Rightarrow> Inl ValueError | Some n \<Rightarrow> Inr n)"

text \<open>\<^verbatim>\<open>'%d' % i\<close> and \<^verbatim>\<open>f"{i}"\<close>: the decimal numeral of an int.\<close>

fun str_nat :: "nat \<Rightarrow> string" where
  "str_nat n =
     (if n < 10 then [''0123456789'' ! n]
      else str_nat (n div 10) @ [''0123456789'' ! (n mod 10)])"

declare str_nat.simps [simp del]

definition str_int :: "int \<Rightarrow> string" where
  "str_int i = (if i < 0 then CHR ''-'' # str_nat (nat (- i)) else str_nat (nat i))"

section \<open>Start-up: options and resume point\<close>

text \<open>
  \<^verbatim>\<open>
  from_checkpoint = None
  iterations = 100000
  start_step = 0
  options, _ = getopt.getopt(sys.argv[1:], '', ['checkpoint=', 'iterations=', 'start='])
  for opt in options:
      if opt[0] == '--checkpoint':
          from_checkpoint = opt[1]
      elif opt[0] == '--iterations':
          iterations = int(opt[1])
      elif opt[0] == '--start':
          start_step = int(opt[1])
  \<close>
  The model starts from the list of pairs that \<open>getopt\<close> returns.
\<close>

record config =
  from_checkpoint :: "string option"
  iterations :: int
  start_step :: int

definition default_config :: config where
  "default_config = \<lparr>from_checkpoint = None, iterations = 100000, start_step = 0\<rparr>"

fun apply_options :: "(string \<times> string) list \<Rightarrow> config \<Rightarrow> error + config" where
  "apply_options [] cfg = Inr cfg"
| "apply_options (opt # rest) cfg =
     (if fst opt = ''--checkpoint'' then
        apply_options rest (cfg\<lparr>from_checkpoint := Some (snd opt)\<rparr>)
      else if fst opt = ''--iterations'' then
        bind_err (py_int (snd opt)) (\<lambda>n. apply_options rest (cfg\<lparr>iterations := n\<rparr>))
      else if fst opt = ''--start'' then
        bind_err (py_int (snd opt)) (\<lambda>n. apply_options rest (cfg\<lparr>start_step := n\<rparr>))
      else apply_options rest cfg)"

text \<open>\<^verbatim>\<open>checkpoint[checkpoint.find("-") + 1:]\<close>\<close>

definition after_dash :: "string \<Rightarrow> string" where
  "after_dash checkpoint = drop (nat (str_find CHR ''-'' checkpoint + 1)) checkpoint"

text \<open>
  \<^verbatim>\<open>
  checkpoint_numbers = [int(checkpoint[checkpoint.find("-") + 1:])
                        for checkpoint in checkpoints
                        if checkpoint[checkpoint.find("-") + 1:].isnumeric()]
  checkpoint_numbers.sort()
  \<close>
\<close>

definition checkpoint_numbers :: "string list \<Rightarrow> error + int list" where
  "checkpoint_numbers checkpoints =
     bind_err
       (traverse (\<lambda>checkpoint. py_int (after_dash checkpoint))
          (filter (\<lambda>checkpoint. isnumeric (after_dash checkpoint)) checkpoints))
       (\<lambda>numbers. Inr (sort numbers))"

text \<open>
  \<^verbatim>\<open>
  if from_checkpoint is not None:
      ncomputer.restore(session, ckpts_dir, from_checkpoint)
  elif os.path.exists(ckpts_dir):
      checkpoints = os.listdir(ckpts_dir)
      if len(checkpoints) != 0 and any("step-" in s for s in checkpoints):
          checkpoint_numbers = ...
          ncomputer.restore(session, ckpts_dir, f"step-{checkpoint_numbers[-1]}")
          start = checkpoint_numbers[-1]
          end = 100000

  if not 'start' in locals():
      start = 0
      end = 100000
  if from_checkpoint is not None:
      start = int(from_checkpoint[from_checkpoint.find("-") + 1:])
  \<close>
  The directory listing is \<open>None\<close> when \<open>ckpts_dir\<close> does not exist. The result is the
  list of names handed to \<open>ncomputer.restore\<close>, which stay restored when a later
  statement raises, and the bounds \<open>(start, end)\<close> of the loop or the exception.
  \<open>iterations\<close> and \<open>start_step\<close> are not read.
\<close>

definition resolve_resume ::
  "config \<Rightarrow> string list option \<Rightarrow> string list \<times> (error + int \<times> int)" where
  "resolve_resume cfg listing =
     (case from_checkpoint cfg of
        Some name \<Rightarrow>
          ([name],
           bind_err (py_int (after_dash name)) (\<lambda>start. Inr (start, 100000)))
      | None \<Rightarrow>
          (case listing of
             None \<Rightarrow> ([], Inr (0, 100000))
           | Some checkpoints \<Rightarrow>
               if checkpoints \<noteq> [] \<and> list_ex (str_contains ''step-'') checkpoints then
                 (case checkpoint_numbers checkpoints of
                    Inl e \<Rightarrow> ([], Inl e)
                  | Inr numbers \<Rightarrow>
                      if numbers = [] then ([], Inl IndexError)
                      else ([''step-'' @ str_int (last numbers)],
                            Inr (last numbers, 100000)))
               else ([], Inr (0, 100000))))"

definition startup ::
  "(string \<times> string) list \<Rightarrow> string list option \<Rightarrow> string list \<times> (error + int \<times> int)" where
  "startup opts listing =
     (case apply_options opts default_config of
        Inl e \<Rightarrow> ([], Inl e)
      | Inr cfg \<Rightarrow> resolve_resume cfg listing)"

section \<open>The training loop\<close>

text \<open>
  What \<open>main\<close> reads from outside: the options returned by \<open>getopt\<close>, the listing of
  the checkpoint directory (\<open>None\<close> when it does not exist), the unpickled lexicon (a
  dict, as an association list with distinct keys), the names of the sample files and
  what \<open>json.load\<close> returns for each, the index that \<open>np.random.choice\<close> draws at each
  step, the loss that \<open>session.run\<close> returns at each step, and the two readings of
  \<open>time.time()\<close> of a report. A KeyboardInterrupt is delivered at most once, at a
  given step and a given point of that step's \<open>try\<close> body.
\<close>

record env =
  options :: "(string \<times> string) list"
  ckpts_listing :: "string list option"
  lexicon_dict :: "(string \<times> int) list"
  data_files :: "string list"
  file_content :: "string \<Rightarrow> error + int list"
  choice :: "int \<Rightarrow> nat"
  loss_of :: "int \<Rightarrow> encoded \<Rightarrow> real"
  clock :: "int \<Rightarrow> real \<times> real"
  clock_start :: real
  interrupt :: "(int \<times> nat) option"

text \<open>
  What \<open>main\<close> changes: the names handed to \<open>ncomputer.restore\<close> and to
  \<open>ncomputer.save\<close>, the step numbers announced by \<^verbatim>\<open>llprint("\rIteration %d/%d")\<close>,
  the variables of the metrics, and the reports printed (average cross-entropy,
  average time of 100 iterations, estimated time to completion).
\<close>

record state =
  restored :: "string list"
  saved :: "string list"
  steps :: "int list"
  last_100_losses :: "real list"
  start_time_100 :: real
  avg_100_time :: real
  avg_counter :: nat
  reports :: "(real \<times> real \<times> real) list"

definition initial_state :: "real \<Rightarrow> string list \<Rightarrow> state" where
  "initial_state t names =
     \<lparr>restored = names, saved = [], steps = [], last_100_losses = [],
      start_time_100 = t, avg_100_time = 0, avg_counter = 0, reports = []\<rparr>"

datatype outcome = Completed state | Exited int state | Aborted error state

text \<open>
  A call of \<open>prepare_sample\<close> with positional arguments. The function has three
  parameters; a call with another number of arguments raises TypeError before the
  body runs.
\<close>

datatype pyval = PyList "int list" | PyInt int | PyDict "(string \<times> int) list"

definition call_prepare_sample :: "pyval list \<Rightarrow> error + encoded" where
  "call_prepare_sample args =
     (case args of
        [PyList sample, PyInt target_code, PyInt word_space_size] \<Rightarrow>
          prepare_sample sample target_code (nat word_space_size)
      | _ \<Rightarrow> Inl TypeError)"

text \<open>
  The metrics of one step:
  \<^verbatim>\<open>
  last_100_losses.append(loss_value)
  if summarize:
      llprint("\tAvg. Cross-Entropy: %.7f\n" % (np.mean(last_100_losses)))
      end_time_100 = time.time()
      elapsed_time = (end_time_100 - start_time_100) / 60
      avg_counter += 1
      avg_100_time += (1. / avg_counter) * (elapsed_time - avg_100_time)
      estimated_time = (avg_100_time * ((end - i) / 100.)) / 60.
      print("\tAvg. 100 iterations time: %.2f minutes" % avg_100_time)
      print("\tApprox. time to completion: %.2f hours\n" % estimated_time)
      start_time_100 = time.time()
      last_100_losses = []
  \<close>
  with \<^verbatim>\<open>summarize = (i % 100 == 0)\<close>. Floating-point numbers are modelled as reals.
\<close>

definition metrics_block :: "real \<times> real \<Rightarrow> int \<Rightarrow> int \<Rightarrow> real \<Rightarrow> state \<Rightarrow> state" where
  "metrics_block readings end_step i loss_value st =
     (let st1 = st\<lparr>last_100_losses := last_100_losses st @ [loss_value]\<rparr> in
      if i mod 100 = 0 then
        let mean = sum_list (last_100_losses st1) / real (length (last_100_losses st1));
            end_time_100 = fst readings;
            elapsed_time = (end_time_100 - start_time_100 st1) / 60;
            counter = avg_counter st1 + 1;
            avg = avg_100_time st1 + (1 / real counter) * (elapsed_time - avg_100_time st1);
            estimated_time = (avg * (real_of_int (end_step - i) / 100)) / 60
        in st1\<lparr>last_100_losses := [], start_time_100 := snd readings, avg_100_time := avg,
               avg_counter := counter, reports := reports st1 @ [(mean, avg, estimated_time)]\<rparr>
      else st1)"

text \<open>
  The body of the \<open>try\<close> statement of step \<open>i\<close>. It returns the state, or the exception
  raised together with the state reached. \<open>at_point\<close> raises the KeyboardInterrupt
  of the environment when it is due at this step and this point.
\<close>

definition at_point ::
  "env \<Rightarrow> int \<Rightarrow> nat \<Rightarrow> state \<Rightarrow> (error \<times> state) + state \<Rightarrow> (error \<times> state) + state" where
  "at_point e i k st rest =
     (if interrupt e = Some (i, k) then Inl (KeyboardInterrupt, st) else rest)"

definition try_body :: "env \<Rightarrow> int \<Rightarrow> int \<Rightarrow> state \<Rightarrow> (error \<times> state) + state" where
  "try_body e end_step i st =
     at_point e i 0 st
       (let st1 = st\<lparr>steps := steps st @ [i]\<rparr> in
        at_point e i 1 st1
          (if data_files e = [] then Inl (ValueError, st1)
           else
             let name = data_files e ! (choice e i mod length (data_files e)) in
             at_point e i 2 st1
               (case file_content e name of
                  Inl err \<Rightarrow> Inl (err, st1)
                | Inr sample \<Rightarrow>
                    at_point e i 3 st1
                      (case map_of (lexicon_dict e) ''='' of
                         None \<Rightarrow> Inl (KeyError, st1)
                       | Some target_code \<Rightarrow>
                           (case call_prepare_sample
                                   [PyList sample, PyInt target_code,
                                    PyInt (int (length (lexicon_dict e))),
                                    PyDict (lexicon_dict e)] of
                              Inl err \<Rightarrow> Inl (err, st1)
                            | Inr encoded \<Rightarrow>
                                at_point e i 4 st1
                                  (let loss_value = loss_of e i encoded in
                                   at_point e i 5 st1
                                     (let st2 = metrics_block (clock e i) end_step i
                                                  loss_value st1 in
                                      at_point e i 6 st2
                                        (let st3 =
                                           (if i \<noteq> 0 \<and> i mod 200 = 0
                                            then st2\<lparr>saved := saved st2 @
                                                         [''step-'' @ str_int i]\<rparr>
                                            else st2)
                                         in at_point e i 7 st3 (Inr st3)))))))))"

text \<open>
  One iteration of the loop:
  \<^verbatim>\<open>
  try:
      ...
  except KeyboardInterrupt:
      llprint("\nSaving Checkpoint ... "),
      ncomputer.save(session, ckpts_dir, 'step-%d' % i)
      llprint("Done!\n")
      sys.exit(0)
  \<close>
  Any other exception leaves the loop and ends the run.
\<close>

definition loop_step :: "env \<Rightarrow> int \<Rightarrow> int \<Rightarrow> state \<Rightarrow> outcome" where
  "loop_step e end_step i st =
     (case try_body e end_step i st of
        Inr st' \<Rightarrow> Completed st'
      | Inl (err, st') \<Rightarrow>
          if err = KeyboardInterrupt
          then Exited 0 (st'\<lparr>saved := saved st' @ [''step-'' @ str_int i]\<rparr>)
          else Aborted err st')"

text \<open>\<^verbatim>\<open>for i in range(start, end + 1)\<close>\<close>

function main_loop :: "env \<Rightarrow> int \<Rightarrow> int \<Rightarrow> state \<Rightarrow> outcome" where
  "main_loop e end_step i st =
     (if end_step < i then Completed st
      else
        (case loop_step e end_step i st of
           Completed st' \<Rightarrow> main_loop e end_step (i + 1) st'
         | Exited status st' \<Rightarrow> Exited status st'
         | Aborted err st' \<Rightarrow> Aborted err st'))"
  by pat_completeness auto
termination
  by (relation "measure (\<lambda>(e, end_step, i, st). nat (end_step + 1 - i))") auto

declare main_loop.simps [simp del]

definition main :: "env \<Rightarrow> outcome" where
  "main e =
     (case startup (options e) (ckpts_listing e) of
        (names, Inl err) \<Rightarrow> Aborted err (initial_state (clock_start e) names)
      | (names, Inr (start, end_step)) \<Rightarrow>
          main_loop e end_step start (initial_state (clock_start e) names))"

text \<open>A run used in the examples: one sample file, the lexicon of ten tokens.\<close>

definition example_lexicon :: "(string \<times> int) list" where
  "example_lexicon =
     [(''='', 0), (''a'', 1), (''b'', 2), (''c'', 3), (''d'', 4), (''e'', 5), (''f'', 6),
      (''g'', 7), (''h'', 8), (''i'', 9)]"

definition example_file :: "string \<Rightarrow> error + int list" where
  "example_file name =
     (if name = ''dialogue-1.json'' then Inr [3, 7, 7, 9, 0, 9, 0] else Inl FileNotFoundError)"

definition example_loss :: "int \<Rightarrow> encoded \<Rightarrow> real" where
  "example_loss i encoded = 1"

definition example_choice :: "int \<Rightarrow> nat" where
  "example_choice i = 0"

definition example_clock :: "int \<Rightarrow> real \<times> real" where
  "example_clock i = (real_of_int i, real_of_int i)"

definition example_env ::
  "(string \<times> string) list \<Rightarrow> string list option \<Rightarrow> (int \<times> nat) option \<Rightarrow> env" where
  "example_env opts listing intr =
     \<lparr>options = opts, ckpts_listing = listing, lexicon_dict = example_lexicon,
      data_files = [''dialogue-1.json''], file_content = example_file,
      choice = example_choice, loss_of = example_loss, clock = example_clock,
      clock_start = 0, interrupt = intr\<rparr>"

text \<open>The state in which a run ends, and the step announced first in it, if any.\<close>

definition outcome_state :: "outcome \<Rightarrow> state" where
  "outcome_state out =
     (case out of Completed st \<Rightarrow> st | Exited status st \<Rightarrow> st | Aborted err st \<Rightarrow> st)"

definition first_step :: "outcome \<Rightarrow> int option" where
  "first_step out = (case steps (outcome_state out) of [] \<Rightarrow> None | i # rest \<Rightarrow> Some i)"

section \<open>Auxiliary facts\<close>

lemma bind_err_simps [simp]:
  "bind_err (Inr x) f = f x"
  "bind_err (Inl e) f = Inl e"
  by (simp_all add: bind_err_def)

lemma traverse_cases:
  assumes "\<And>x. x \<in> set xs \<Longrightarrow> f x = (if P x then Inr (g x) else Inl e)"
  shows "traverse f xs = (if \<forall>x\<in>set xs. P x then Inr (map g xs) else Inl e)"
  using assms by (induction xs) auto

lemma traverse_total:
  assumes "\<And>x. x \<in> set xs \<Longrightarrow> f x = Inr (g x)"
  shows "traverse f xs = Inr (map g xs)"
  using assms by (induction xs) auto

lemma list_index_split: "c \<notin> set pre \<Longrightarrow> list_index c (pre @ c # ans) = Some (length pre)"
  by (induction pre) auto

subsection \<open>Small integers are stored exactly\<close>

lemma round_half_even_small: "nat \<bar>n\<bar> < 2 ^ p \<Longrightarrow> round_half_even p n = n"
  unfolding round_half_even_def Let_def by (rule if_P)

lemma small_int_bounds:
  assumes "\<bar>n\<bar> < (2::int) ^ 24"
  shows "nat \<bar>n\<bar> < 2 ^ 24" "nat \<bar>n\<bar> < 2 ^ 53" "\<bar>n\<bar> < 2 ^ 128" "\<bar>n\<bar> < 2 ^ 1024"
proof -
  have a: "(2::int) ^ 24 \<le> 2 ^ 128" "(2::int) ^ 24 \<le> 2 ^ 1024" "(2::nat) ^ 24 \<le> 2 ^ 53"
    by (rule power_increasing; simp)+
  show n24: "nat \<bar>n\<bar> < 2 ^ 24" using assms by (simp add: nat_less_iff)
  show "nat \<bar>n\<bar> < 2 ^ 53" using n24 a(3) by (rule less_le_trans)
  show "\<bar>n\<bar> < 2 ^ 128" using assms a(1) by (rule less_le_trans)
  show "\<bar>n\<bar> < 2 ^ 1024" using assms a(2) by (rule less_le_trans)
qed

lemma scalar_float32_small:
  assumes "\<bar>n\<bar> < 2 ^ 24"
  shows "scalar_float32 n = Fin n"
proof -
  have r: "round_half_even 24 (round_half_even 53 n) = n"
    using small_int_bounds(1,2)[OF assms] by (simp only: round_half_even_small)
  have "\<not> 2 ^ 128 \<le> n" "\<not> n \<le> - (2 ^ 128)"
    using small_int_bounds(3)[OF assms] by (simp_all only: abs_less_iff not_le, linarith+)
  then show ?thesis unfolding scalar_float32_def r Let_def by (simp only: if_False)
qed

lemma np_float32_small:
  assumes "\<bar>n\<bar> < 2 ^ 24"
  shows "np_float32 n = Inr (Fin n)"
proof -
  have r: "round_half_even 53 n = n"
    using small_int_bounds(2)[OF assms] by (rule round_half_even_small)
  have "\<not> 2 ^ 1024 \<le> \<bar>n\<bar>"
    using small_int_bounds(4)[OF assms] by (simp only: not_le)
  then show ?thesis
    unfolding np_float32_def r by (simp only: if_False scalar_float32_small[OF assms])
qed

lemma np_array_float32_small:
  "\<forall>x\<in>set xs. \<bar>x\<bar> < 2 ^ 24 \<Longrightarrow> np_array_float32 xs = Inr (map Fin xs)"
  unfolding np_array_float32_def by (rule traverse_total) (simp add: np_float32_small)

subsection \<open>The encoder in closed form\<close>

lemma pad_loop_eq: "pad_loop n c out = out @ replicate (n - length out) c"
proof (induction n c out rule: pad_loop.induct)
  case (1 n c out)
  show ?case
  proof (cases "length out < n")
    case True
    then have "n - length out = Suc (n - Suc (length out))" by simp
    with 1 True show ?thesis
      by (subst pad_loop.simps) (simp add: replicate_app_Cons_same)
  next
    case False
    then show ?thesis by (subst pad_loop.simps) simp
  qed
qed

lemma onehot_cases:
  "onehot i sz =
     (if - int sz \<le> i \<and> i < int sz then Inr ((replicate sz 0)[nat (i mod int sz) := 1])
      else Inl IndexError)"
proof (cases "0 \<le> i")
  case True
  then show ?thesis by (auto simp: onehot_def)
next
  case False
  show ?thesis
  proof (cases "- int sz \<le> i")
    case True
    with False have "(i + int sz) mod int sz = i + int sz"
      by (intro mod_pos_pos_trivial) auto
    then have "i mod int sz = i + int sz" by simp
    with True False show ?thesis by (simp add: onehot_def Let_def)
  next
    case below: False
    with False show ?thesis by (simp add: onehot_def Let_def)
  qed
qed

lemma onehot_rows_cases:
  "onehot_rows sz (map Fin xs) =
     (if \<forall>x\<in>set xs. - int sz \<le> x \<and> x < int sz
      then Inr (map (\<lambda>i. (replicate sz 0)[nat (i mod int sz) := 1]) xs)
      else Inl IndexError)"
proof -
  have "traverse (\<lambda>code. bind_err (int_of_float32 code) (\<lambda>i. onehot i sz)) (map Fin xs) =
     (if \<forall>v\<in>set (map Fin xs). case v of Fin i \<Rightarrow> - int sz \<le> i \<and> i < int sz | _ \<Rightarrow> False
      then Inr (map (\<lambda>v. case v of Fin i \<Rightarrow> (replicate sz 0)[nat (i mod int sz) := 1] | _ \<Rightarrow> [])
                  (map Fin xs))
      else Inl IndexError)"
    by (rule traverse_cases) (auto simp: onehot_cases)
  then show ?thesis by (simp add: onehot_rows_def o_def)
qed

lemma prepare_sample_eq:
  assumes sep: "sep \<notin> set pre"
    and small: "\<forall>x\<in>set (pre @ sep # ans). \<bar>x\<bar> < 2 ^ 24"
  shows "prepare_sample (pre @ sep # ans) sep V =
     (if length pre < length ans then Inl IndexError
      else
        let padded = ans @ replicate (length pre - length ans) sep in
        if \<not> (\<forall>x\<in>set (pre @ padded). - int V \<le> x \<and> x < int V) then Inl IndexError
        else if V = 0 then Inl ValueError
        else Inr ([map (\<lambda>i. (replicate V 0)[nat (i mod int V) := 1]) pre],
                  [map (\<lambda>i. (replicate V 0)[nat (i mod int V) := 1]) padded],
                  length pre,
                  [map (\<lambda>x. [if x \<noteq> sep then 1 else 0]) padded]))"
proof -
  define padded where "padded = ans @ replicate (length pre - length ans) sep"
  have idx: "list_index sep (pre @ sep # ans) = Some (length pre)"
    using sep by (rule list_index_split)
  have td: "take (length pre) (pre @ sep # ans) = pre"
    "drop (length pre + 1) (pre @ sep # ans) = ans"
    by simp_all
  have inp: "np_array_float32 pre = Inr (map Fin pre)"
    using small by (intro np_array_float32_small) simp
  have out: "np_array_float32 padded = Inr (map Fin padded)"
    using small unfolding padded_def by (intro np_array_float32_small) auto
  have sc: "scalar_float32 sep = Fin sep"
    using small by (intro scalar_float32_small) simp
  have len: "length padded \<noteq> length pre \<longleftrightarrow> length pre < length ans"
    unfolding padded_def by auto
  have mask: "map (\<lambda>w. [w]) (map (\<lambda>b. if b then 1 else 0 :: real)
                (map (\<lambda>v. v \<noteq> Fin sep) (map Fin padded)))
              = map (\<lambda>x. [if x \<noteq> sep then 1 else 0]) padded"
    by simp
  have step: "prepare_sample (pre @ sep # ans) sep V =
      (if length pre < length ans then Inl IndexError
       else bind_err (onehot_rows V (map Fin pre)) (\<lambda>input_rows.
            bind_err (onehot_rows V (map Fin padded)) (\<lambda>output_rows.
            bind_err (reshape_batch V input_rows) (\<lambda>input_data.
            bind_err (reshape_batch V output_rows) (\<lambda>target_output.
            Inr (input_data, target_output, length pre,
                 [map (\<lambda>x. [if x \<noteq> sep then 1 else 0]) padded]))))))"
    unfolding prepare_sample_def idx option.case td inp bind_err_simps length_map pad_loop_eq
      padded_def[symmetric] out Let_def sc len mask ..
  show ?thesis
    unfolding step padded_def[symmetric] Let_def onehot_rows_cases
    by (auto simp: reshape_batch_def)
qed

subsection \<open>Strings\<close>

lemmas string_defs =
  digit_of_def is_digit_def digit_val_def isnumeric_def str_find_def is_space_def strip_def
  parse_digits_def py_int_def str_int_def after_dash_def checkpoint_numbers_def

lemmas run_defs =
  startup_def resolve_resume_def default_config_def main_def initial_state_def loop_step_def
  try_body_def at_point_def call_prepare_sample_def

lemmas example_defs =
  example_env_def example_lexicon_def example_file_def example_choice_def example_loss_def
  example_clock_def

lemma list_index_None_iff: "list_index c xs = None \<longleftrightarrow> c \<notin> set xs"
  by (induction xs) auto

lemma is_digit_iff: "is_digit c \<longleftrightarrow> c \<in> set ''0123456789''"
  by (simp only: is_digit_def digit_of_def list_index_None_iff simp_thms)

lemma digit_not_space: "is_digit c \<Longrightarrow> \<not> is_space c"
  unfolding is_digit_iff is_space_def by auto

lemma digit_not_sign: "is_digit c \<Longrightarrow> c \<noteq> CHR ''-'' \<and> c \<noteq> CHR ''+''"
  unfolding is_digit_iff by auto

lemma strip_digits:
  assumes "list_all is_digit ds"
  shows "strip ds = ds"
proof (cases ds rule: rev_cases)
  case Nil
  then show ?thesis by (simp add: strip_def)
next
  case (snoc ys y)
  with assms have y: "\<not> is_space y" by (simp add: digit_not_space)
  from assms have "ds = [] \<or> \<not> is_space (hd ds)"
    by (cases ds) (simp_all add: digit_not_space)
  then have "dropWhile is_space ds = ds"
    by (cases ds) auto
  with snoc y show ?thesis by (simp add: strip_def)
qed

lemma digits_acc_digits:
  "list_all is_digit ds \<Longrightarrow>
   digits_acc a ds = Some (foldl (\<lambda>a c. 10 * a + digit_val c) a ds)"
  by (induction ds arbitrary: a) simp_all

lemma py_int_digits:
  assumes "ds \<noteq> []" and "list_all is_digit ds"
  shows "py_int ds = Inr (int (foldl (\<lambda>a c. 10 * a + digit_val c) 0 ds))"
proof -
  from assms obtain c cs where ds: "ds = c # cs" by (cases ds) auto
  with assms have c: "is_digit c" and cs: "list_all is_digit cs" by simp_all
  have "parse_digits ds = Some (foldl (\<lambda>a c. 10 * a + digit_val c) 0 ds)"
    using c cs by (simp add: ds parse_digits_def digits_acc_digits)
  moreover have "strip ds = c # cs"
    using strip_digits [OF assms(2)] ds by simp
  ultimately show ?thesis
    using digit_not_sign [OF c] by (simp add: py_int_def ds)
qed

lemma after_dash_split:
  assumes "CHR ''-'' \<notin> set p"
  shows "after_dash (p @ CHR ''-'' # ds) = ds"
proof -
  have "str_find CHR ''-'' (p @ CHR ''-'' # ds) = int (length p)"
    by (simp add: str_find_def list_index_split [OF assms])
  moreover have "nat (int (length p) + 1) = Suc (length p)" by simp
  ultimately show ?thesis by (simp add: after_dash_def)
qed

subsection \<open>The call of the encoder in the loop\<close>

lemma call_prepare_sample_four: "call_prepare_sample [a, b, c, d] = Inl TypeError"
  by (simp add: call_prepare_sample_def split: pyval.splits list.splits)

lemma try_body_not_Inr: "try_body e end_step i st \<noteq> Inr st'"
  by (simp add: try_body_def at_point_def call_prepare_sample_four Let_def
      split: sum.splits option.splits)

lemma loop_step_never_completes: "loop_step e end_step i st \<noteq> Completed st'"
  using try_body_not_Inr [of e end_step i st]
  by (auto simp: loop_step_def split: sum.splits prod.splits)

lemma try_body_saved:
  "try_body e end_step i st = Inl (err, st') \<Longrightarrow> saved st' = saved st"
  by (auto simp: try_body_def at_point_def call_prepare_sample_four Let_def
      split: sum.splits option.splits if_splits)

lemma try_body_losses:
  "try_body e end_step i st = Inl (err, st') \<Longrightarrow> last_100_losses st' = last_100_losses st"
  by (auto simp: try_body_def at_point_def call_prepare_sample_four Let_def
      split: sum.splits option.splits if_splits)

lemma main_loop_once:
  "main_loop e end_step i st =
     (if end_step < i then Completed st else loop_step e end_step i st)"
  using loop_step_never_completes [of e end_step i st]
  by (subst main_loop.simps) (simp split: outcome.splits)

lemma loop_step_losses:
  "last_100_losses (outcome_state (loop_step e end_step i st)) = last_100_losses st"
proof (cases "try_body e end_step i st")
  case (Inl r)
  then obtain err st' where r: "try_body e end_step i st = Inl (err, st')"
    by (cases r) simp
  from try_body_losses [OF r] r show ?thesis
    by (simp add: loop_step_def outcome_state_def)
next
  case (Inr st')
  with try_body_not_Inr show ?thesis by blast
qed

lemma main_losses_empty: "last_100_losses (outcome_state (main e)) = []"
proof (cases "startup (options e) (ckpts_listing e)")
  case (Pair names r)
  show ?thesis
  proof (cases r)
    case (Inl err)
    with Pair show ?thesis
      by (simp add: main_def outcome_state_def initial_state_def)
  next
    case (Inr bounds)
    obtain start end_step where "bounds = (start, end_step)" by (cases bounds)
    with Pair Inr show ?thesis
      by (simp add: main_def main_loop_once loop_step_losses)
        (simp add: outcome_state_def initial_state_def)
  qed
qed

section \<open>The encoder: claims C6, C7 and C8\<close>

text \<open>
  C6, as stated, fails: for the sample \<open>[1, 2, 0, 3, 4, 5]\<close> with separator \<open>0\<close> the
  prefix \<open>[1, 2]\<close> has length two and the answer \<open>[3, 4, 5]\<close> length three, and
  \<open>prepare_sample\<close> raises IndexError instead of returning tensors.
\<close>

theorem long_answer_counterexample:
  "prepare_sample [1, 2, 0, 3, 4, 5] 0 10 = Inl IndexError"
  using prepare_sample_eq [of 0 "[1, 2]" "[3, 4, 5]" 10] by simp

text \<open>
  C6 (amended): for every sample that contains the separator and whose raw answer (the
  part after the first separator) is longer than the prefix before it, with ids of
  magnitude below \<open>2 ^ 24\<close>, \<open>prepare_sample\<close> returns no tensors: the assignment through
  the boolean mask raises IndexError, for every vocabulary size.
\<close>

theorem long_answer_raises:
  assumes "sep \<notin> set pre"
    and "\<forall>x\<in>set (pre @ sep # ans). \<bar>x\<bar> < 2 ^ 24"
    and "length pre < length ans"
  shows "prepare_sample (pre @ sep # ans) sep V = Inl IndexError"
  using assms by (simp add: prepare_sample_eq)

theorem long_answer_raises_witness:
  "(1::int) \<notin> set [4] \<and> length [4::int] < length [5::int, 6]
   \<and> prepare_sample ([4] @ 1 # [5, 6]) 1 8 = Inl IndexError"
  using long_answer_raises [of 1 "[4]" "[5, 6]" 8] by simp

text \<open>
  C7, as stated, fails: for the sample \<open>[3, 7, 7, 9, 0, 9, 0]\<close> with separator \<open>0\<close> the raw
  answer is \<open>[9, 0]\<close>, of length two, and \<open>T = 4\<close>, but the mask is \<open>[1, 0, 0, 0]\<close> and
  sums to one.
\<close>

theorem mask_sum_counterexample:
  "map_sum id mask_of (prepare_sample [3, 7, 7, 9, 0, 9, 0] 0 10) = Inr [1, 0, 0, 0]
   \<and> sum_list [1, 0, 0, 0 :: real] \<noteq> real (min (length [9, 0 :: int]) 4)"
  using prepare_sample_eq [of 0 "[3, 7, 7, 9]" "[9, 0]" 10] by (simp add: mask_of_def)

text \<open>
  C7 (amended): for every sample that contains the separator, with ids of magnitude
  below \<open>2 ^ 24\<close>, whenever \<open>prepare_sample\<close> returns, the raw answer is no longer than
  the prefix, the mask has one weight per time step, the weight is 1.0 at exactly the
  answer positions whose id differs from the separator id and 0.0 at every padded
  position, and the sum of the mask is the number of ids of the raw answer that differ
  from the separator id.
\<close>

theorem mask_marks_answer:
  assumes "sep \<notin> set pre"
    and "\<forall>x\<in>set (pre @ sep # ans). \<bar>x\<bar> < 2 ^ 24"
    and "prepare_sample (pre @ sep # ans) sep V = Inr enc"
  shows "length ans \<le> length pre
    \<and> length (mask_of enc) = length pre
    \<and> mask_of enc = map (\<lambda>x. if x \<noteq> sep then 1 else 0) ans
                      @ replicate (length pre - length ans) 0
    \<and> sum_list (mask_of enc) = real (length (filter (\<lambda>x. x \<noteq> sep) ans))"
proof -
  let ?padded = "ans @ replicate (length pre - length ans) sep"
  from assms have le: "length ans \<le> length pre"
    by (simp add: prepare_sample_eq split: if_splits)
  from assms have "\<exists>a b. enc = (a, b, length pre, [map (\<lambda>x. [if x \<noteq> sep then 1 else 0]) ?padded])"
    by (auto simp: prepare_sample_eq Let_def split: if_splits)
  then have m: "mask_of enc = map (\<lambda>x. if x \<noteq> sep then 1 else 0) ?padded"
    by (auto simp: mask_of_def concat_map_singleton o_def)
  have s: "sum_list (map (\<lambda>x. if x \<noteq> sep then 1 else 0 :: real) ans)
           = real (length (filter (\<lambda>x. x \<noteq> sep) ans))"
    by (induction ans) auto
  show ?thesis using le m s by (simp add: sum_list_replicate)
qed

theorem mask_marks_answer_witness:
  "(0::int) \<notin> set [3, 7, 7, 9]
   \<and> (\<exists>enc. prepare_sample ([3, 7, 7, 9] @ 0 # [9, 0]) 0 10 = Inr enc
        \<and> mask_of enc = [1, 0, 0, 0] \<and> sum_list (mask_of enc) = 1)"
proof -
  obtain enc where e: "prepare_sample ([3, 7, 7, 9] @ 0 # [9, 0]) 0 10 = Inr enc"
    using prepare_sample_eq [of 0 "[3, 7, 7, 9]" "[9, 0]" 10] by simp
  have "(0::int) \<notin> set [3, 7, 7, 9]"
    and "\<forall>x\<in>set ([3, 7, 7, 9] @ 0 # [9, 0]). \<bar>x\<bar> < (2::int) ^ 24"
    by simp_all
  from mask_marks_answer [OF this e] have "mask_of enc = [1, 0, 0, 0]"
    and "sum_list (mask_of enc) = 1"
    by (simp_all add: numeral_eq_Suc)
  with e show ?thesis by auto
qed

text \<open>
  C8, as stated, fails: the sample \<open>[-1, 0, 2]\<close> with separator \<open>0\<close> and vocabulary size
  \<open>3\<close> has the negative id \<open>-1\<close> in its prefix, and \<open>prepare_sample\<close> returns tensors: the
  id is expanded to the one-hot vector of position \<open>2\<close>.
\<close>

theorem negative_id_counterexample:
  "prepare_sample [- 1, 0, 2] 0 3 = Inr ([[[0, 0, 1]]], [[[0, 0, 1]]], 1, [[[1]]])"
  using prepare_sample_eq [of 0 "[- 1]" "[2]" 3] by (simp add: numeral_eq_Suc)

text \<open>
  C8 (amended): for every sample that contains the separator, whose raw answer is no
  longer than the prefix, with ids of magnitude below \<open>2 ^ 24\<close> and a vocabulary of
  positive size \<open>V\<close>: when every id of the prefix and of the padded answer lies in
  \<open>[- V, V)\<close>, each is expanded to a one-hot vector of width \<open>V\<close>, a negative id \<open>k\<close>
  marking position \<open>V + k\<close>; when some id is below \<open>- V\<close> or at least \<open>V\<close>,
  \<open>prepare_sample\<close> raises IndexError.
\<close>

theorem onehot_expansion_range:
  assumes "sep \<notin> set pre"
    and "\<forall>x\<in>set (pre @ sep # ans). \<bar>x\<bar> < 2 ^ 24"
    and "length ans \<le> length pre"
    and "0 < V"
  shows "prepare_sample (pre @ sep # ans) sep V =
     (let padded = ans @ replicate (length pre - length ans) sep in
      if \<forall>x\<in>set (pre @ padded). - int V \<le> x \<and> x < int V
      then Inr ([map (\<lambda>i. (replicate V 0)[nat (i mod int V) := 1]) pre],
                [map (\<lambda>i. (replicate V 0)[nat (i mod int V) := 1]) padded],
                length pre,
                [map (\<lambda>x. [if x \<noteq> sep then 1 else 0]) padded])
      else Inl IndexError)"
  using assms(3,4) by (simp add: prepare_sample_eq [OF assms(1,2)] Let_def)

theorem onehot_expansion_range_witness:
  "(0::int) \<notin> set [- 3, 1]
   \<and> length [2::int] \<le> length [- 3, 1 :: int] \<and> (0::nat) < 3
   \<and> prepare_sample ([- 3, 1] @ 0 # [2]) 0 3 =
       Inr ([[[1, 0, 0], [0, 1, 0]]], [[[0, 0, 1], [1, 0, 0]]], 2, [[[1], [0]]])
   \<and> prepare_sample ([3] @ 0 # [2]) 0 3 = Inl IndexError
   \<and> prepare_sample ([- 4] @ 0 # [2]) 0 3 = Inl IndexError"
  using onehot_expansion_range [of 0 "[- 3, 1]" "[2]" 3]
    onehot_expansion_range [of 0 "[3]" "[2]" 3]
    onehot_expansion_range [of 0 "[- 4]" "[2]" 3]
  by (simp add: numeral_eq_Suc)

section \<open>The loop body: claim C1\<close>

text \<open>
  C1 fails on the code. Line 210 calls \<open>prepare_sample\<close> with four arguments (the
  sample, the separator id, the vocabulary size and the lexicon), and the function has
  three parameters: the call raises TypeError at every step. So, in every environment,
  no step of the loop completes and the run ends with the window of losses empty. In
  the run below, with one sample file and no checkpoint, the first step announces
  iteration \<open>0\<close> and the run is aborted there by the TypeError.
\<close>

theorem no_step_completes:
  "loop_step e end_step i st \<noteq> Completed st'
   \<and> last_100_losses (outcome_state (main e)) = []
   \<and> main (example_env [] None None)
       = Aborted TypeError ((initial_state 0 []) \<lparr>steps := [0]\<rparr>)"
proof -
  have "main (example_env [] None None)
          = Aborted TypeError ((initial_state 0 []) \<lparr>steps := [0]\<rparr>)"
    by (simp add: run_defs example_defs main_loop.simps)
  then show ?thesis
    using loop_step_never_completes [of e end_step i st st'] main_losses_empty [of e]
    by simp
qed

section \<open>Start-up: claims C2, C3, C4 and C5\<close>

text \<open>
  C2, as stated, fails: with \<open>step-50\<close>, \<open>step-120\<close> and \<open>step-7\<close> in the directory and no
  explicit checkpoint, \<open>step-120\<close> is restored and the first step executed is \<open>120\<close>, not
  \<open>121\<close>.
\<close>

theorem resume_step_counterexample:
  "first_step (main (example_env [] (Some [''step-50'', ''step-120'', ''step-7'']) None))
     = Some 120"
  by (simp add: first_step_def outcome_state_def run_defs example_defs string_defs
      main_loop.simps str_nat.simps)

text \<open>
  C2 (amended): when no explicit checkpoint is supplied and the checkpoint directory
  contains \<open>step-50\<close>, \<open>step-120\<close> and \<open>step-7\<close>, the scan finds the numbers 7, 50 and 120,
  the checkpoint \<open>step-120\<close> is restored, and the loop starts at step \<open>120\<close> (the first
  step executed is the latest checkpoint's step, not the one after it) and ends at
  \<open>100000\<close>.
\<close>

theorem resume_from_latest:
  assumes "apply_options (options e) default_config = Inr cfg"
    and "from_checkpoint cfg = None"
    and "ckpts_listing e = Some [''step-50'', ''step-120'', ''step-7'']"
  shows "checkpoint_numbers [''step-50'', ''step-120'', ''step-7''] = Inr [7, 50, 120]
    \<and> main e = main_loop e 100000 120 (initial_state (clock_start e) [''step-120''])"
proof -
  have n: "checkpoint_numbers [''step-50'', ''step-120'', ''step-7''] = Inr [7, 50, 120]"
    by (simp add: string_defs)
  have "resolve_resume cfg (Some [''step-50'', ''step-120'', ''step-7''])
          = ([''step-120''], Inr (120, 100000))"
    using assms(2) by (simp add: resolve_resume_def n str_int_def str_nat.simps)
  with assms n show ?thesis by (simp add: main_def startup_def)
qed

theorem resume_from_latest_witness:
  "apply_options (options (example_env [] (Some [''step-50'', ''step-120'', ''step-7'']) None))
      default_config = Inr default_config
   \<and> from_checkpoint default_config = None
   \<and> ckpts_listing (example_env [] (Some [''step-50'', ''step-120'', ''step-7'']) None)
       = Some [''step-50'', ''step-120'', ''step-7'']
   \<and> main (example_env [] (Some [''step-50'', ''step-120'', ''step-7'']) None)
       = main_loop (example_env [] (Some [''step-50'', ''step-120'', ''step-7'']) None)
           100000 120 (initial_state 0 [''step-120''])"
  using resume_from_latest
    [of "example_env [] (Some [''step-50'', ''step-120'', ''step-7'']) None" default_config]
  by (simp add: example_env_def default_config_def)

text \<open>
  C3 fails on the code. The options \<open>--iterations\<close> and \<open>--start\<close> are parsed into
  \<open>iterations\<close> and \<open>start_step\<close>, and neither variable is read again: the bounds of the
  loop are the same for all their values. With \<open>--iterations=10 --start=5\<close> and no
  checkpoint the loop runs from \<open>0\<close> to \<open>100000\<close>.
\<close>

theorem iterations_and_start_unused:
  "resolve_resume (cfg\<lparr>iterations := n, start_step := s\<rparr>) listing = resolve_resume cfg listing
   \<and> startup [(''--iterations'', ''10''), (''--start'', ''5'')] None = ([], Inr (0, 100000))"
  by (simp add: startup_def resolve_resume_def default_config_def string_defs)

text \<open>
  C4 fails on the code. The scan keeps every entry whose text after its first dash is
  numeric, whatever precedes the dash: with \<open>step-5\<close> and \<open>lr-999\<close> in the directory the
  number \<open>999\<close> is the largest, and the checkpoint \<open>step-999\<close> is the one handed to
  \<open>restore\<close>. With the single entry \<open>step-abc\<close> the list of numbers is empty and its last
  element is read, which raises IndexError.
\<close>

theorem unrelated_file_decides_restore:
  "startup [] (Some [''step-5'', ''lr-999'']) = ([''step-999''], Inr (999, 100000))
   \<and> startup [] (Some [''step-abc'']) = ([], Inl IndexError)"
  by (simp add: startup_def resolve_resume_def default_config_def string_defs str_nat.simps)

text \<open>
  C5, as stated, fails: for the checkpoint name \<open>best\<close> the checkpoint is restored, and
  the conversion of the name to a step number raises ValueError before the loop.
\<close>

theorem explicit_checkpoint_counterexample:
  "startup [(''--checkpoint'', ''best'')] None = ([''best''], Inl ValueError)"
  by (simp add: startup_def resolve_resume_def default_config_def string_defs)

text \<open>
  C5 (amended): when an explicit checkpoint name is supplied via \<open>--checkpoint\<close>, and the
  text after the first dash of the name is a non-empty string of decimal digits,
  start-up restores exactly that named checkpoint, whatever the checkpoint directory
  contains, and the loop starts at the number those digits denote.
\<close>

theorem explicit_checkpoint_resume:
  assumes "apply_options opts default_config = Inr cfg"
    and "from_checkpoint cfg = Some (p @ CHR ''-'' # ds)"
    and "CHR ''-'' \<notin> set p"
    and "ds \<noteq> []"
    and "list_all is_digit ds"
  shows "startup opts listing =
           ([p @ CHR ''-'' # ds],
            Inr (int (foldl (\<lambda>a c. 10 * a + digit_val c) 0 ds), 100000))"
  using assms
  by (simp add: startup_def resolve_resume_def after_dash_split py_int_digits)

theorem explicit_checkpoint_resume_witness:
  "apply_options [(''--checkpoint'', ''step-57'')] default_config
      = Inr (default_config\<lparr>from_checkpoint := Some (''step'' @ CHR ''-'' # ''57'')\<rparr>)
   \<and> CHR ''-'' \<notin> set ''step'' \<and> ''57'' \<noteq> [] \<and> list_all is_digit ''57''
   \<and> startup [(''--checkpoint'', ''step-57'')] (Some [''step-200''])
       = ([''step-57''], Inr (57, 100000))"
  using explicit_checkpoint_resume
    [of "[(''--checkpoint'', ''step-57'')]"
        "default_config\<lparr>from_checkpoint := Some (''step'' @ CHR ''-'' # ''57'')\<rparr>"
        "''step''" "''57''" "Some [''step-200'']"]
  by (simp add: is_digit_def digit_of_def digit_val_def)

section \<open>Metrics and cancellation: claims C9 and C10\<close>

text \<open>
  C9: at a step that is a multiple of 100, when the window holds exactly 100 losses
  once the loss of the step is appended, the report gives their arithmetic mean and the
  window is reset to empty; the report counter is incremented and the average duration
  is updated by \<open>avg \<leftarrow> avg + (1 / n) * (elapsed - avg)\<close>, where \<open>n\<close> is the counter after
  the increment, that is the number of reports emitted so far, and \<open>elapsed\<close> is the time
  since the previous report, in minutes.
\<close>

theorem flush_reports_mean:
  assumes "i mod 100 = 0"
    and "length (last_100_losses st @ [loss_value]) = 100"
    and "st' = metrics_block (t1, t2) end_step i loss_value st"
  shows "last_100_losses st' = []
    \<and> length (reports st') = length (reports st) + 1
    \<and> fst (last (reports st')) = sum_list (last_100_losses st @ [loss_value]) / 100
    \<and> avg_counter st' = avg_counter st + 1
    \<and> (avg_counter st = length (reports st) \<longrightarrow> avg_counter st' = length (reports st'))
    \<and> avg_100_time st' =
        avg_100_time st
        + (1 / real (avg_counter st')) * ((t1 - start_time_100 st) / 60 - avg_100_time st)
    \<and> fst (snd (last (reports st'))) = avg_100_time st'"
  using assms by (simp add: metrics_block_def Let_def)

theorem flush_reports_mean_witness:
  "(100::int) mod 100 = 0
   \<and> length (last_100_losses ((initial_state 0 []) \<lparr>last_100_losses := replicate 99 2\<rparr>) @ [102])
       = 100
   \<and> last_100_losses
        (metrics_block (120, 121) 100000 100 102
           ((initial_state 0 []) \<lparr>last_100_losses := replicate 99 2\<rparr>)) = []
   \<and> fst (last (reports
        (metrics_block (120, 121) 100000 100 102
           ((initial_state 0 []) \<lparr>last_100_losses := replicate 99 2\<rparr>)))) = 3
   \<and> avg_100_time
        (metrics_block (120, 121) 100000 100 102
           ((initial_state 0 []) \<lparr>last_100_losses := replicate 99 2\<rparr>)) = 2"
  using flush_reports_mean
    [of 100 "(initial_state 0 []) \<lparr>last_100_losses := replicate 99 2\<rparr>" 102
        "metrics_block (120, 121) 100000 100 102
           ((initial_state 0 []) \<lparr>last_100_losses := replicate 99 2\<rparr>)"
        120 121 100000]
  by (simp add: initial_state_def sum_list_replicate)

text \<open>
  C10: for every step \<open>i\<close>, when a KeyboardInterrupt is raised in the \<open>try\<close> body of step
  \<open>i\<close>, nothing was saved by that step before, the handler saves exactly one checkpoint,
  named \<open>step-i\<close>, and the run exits with status zero: no later step runs and no other
  checkpoint is written.
\<close>

theorem interrupt_saves_once:
  assumes "try_body e end_step i st = Inl (KeyboardInterrupt, st')"
    and "i \<le> end_step"
  shows "saved st' = saved st
    \<and> loop_step e end_step i st
        = Exited 0 (st'\<lparr>saved := saved st @ [''step-'' @ str_int i]\<rparr>)
    \<and> main_loop e end_step i st
        = Exited 0 (st'\<lparr>saved := saved st @ [''step-'' @ str_int i]\<rparr>)"
proof -
  have s: "saved st' = saved st"
    using assms(1) by (rule try_body_saved)
  have l: "loop_step e end_step i st
             = Exited 0 (st'\<lparr>saved := saved st @ [''step-'' @ str_int i]\<rparr>)"
    using assms(1) s by (simp add: loop_step_def)
  have "main_loop e end_step i st
          = Exited 0 (st'\<lparr>saved := saved st @ [''step-'' @ str_int i]\<rparr>)"
    using assms(2) l by (subst main_loop.simps) simp
  with s l show ?thesis by simp
qed

theorem interrupt_saves_once_witness:
  "try_body (example_env [] None (Some (57, 2))) 100000 57 (initial_state 0 [])
      = Inl (KeyboardInterrupt, (initial_state 0 []) \<lparr>steps := [57]\<rparr>)
   \<and> (57::int) \<le> 100000
   \<and> main_loop (example_env [] None (Some (57, 2))) 100000 57 (initial_state 0 [])
       = Exited 0 ((initial_state 0 []) \<lparr>steps := [57], saved := [''step-57'']\<rparr>)"
proof -
  have b: "try_body (example_env [] None (Some (57, 2))) 100000 57 (initial_state 0 [])
      = Inl (KeyboardInterrupt, (initial_state 0 []) \<lparr>steps := [57]\<rparr>)"
    by (simp add: try_body_def at_point_def example_defs initial_state_def)
  have "(57::int) \<le> 100000" by simp
  from interrupt_saves_once [OF b this] b show ?thesis
    by (simp add: initial_state_def str_int_def str_nat.simps)
qed

end
